theory Spec2Isabelle
  imports Main "HOL-Library.Sublist"
begin

section \<open>The viewer launcher \<^verbatim>\<open>bin/runviewer.pyw\<close>\<close>

text \<open>
  The script under verification:
  \<^verbatim>\<open>
  import noysim.viewer

  app = noysim.viewer.wx.PySimpleApp()
  app.frame = noysim.viewer.ViewerFrame()
  app.frame.Show()
  app.MainLoop()
  \<close>
  Everything the script calls lives in the package \<open>noysim.viewer\<close> and in wxPython,
  neither of which is part of the source at hand. The library is therefore a parameter
  of the model: a record of the five entry points the script uses. Each entry point
  receives the current state and either returns a value, raises an exception or never
  returns; whatever it did to the state before raising stays done.
\<close>

subsection \<open>Objects, state and exceptions\<close>

type_synonym ref = nat

datatype error =
    ImportError string
  | AttributeError string
  | LibraryError string

text \<open>What a process can read from outside: nothing of it is read by the script.\<close>

record input =
  argv :: "string list"
  environ :: "string \<rightharpoonup> string"
  user_input :: "string list"

text \<open>
  The state: the instance attributes of every object (\<open>attrs s r n\<close> is what the
  attribute \<open>n\<close> of the object \<open>r\<close> is bound to) and the input of the process.
  The script's two variables, \<open>noysim\<close> and \<open>app\<close>, are bound variables of the model.
\<close>

record pystate =
  attrs :: "ref \<Rightarrow> string \<rightharpoonup> ref"
  given :: input

datatype 'a reply =
    Returns 'a pystate
  | Raises error pystate
  | Hangs

subsection \<open>The library, as the script sees it\<close>

text \<open>
  \<^item> \<open>import_viewer\<close>: the statement \<^verbatim>\<open>import noysim.viewer\<close>; it returns the module
    object of the package \<open>noysim\<close>.
  \<^item> \<open>PySimpleApp m\<close>: the call \<^verbatim>\<open>noysim.viewer.wx.PySimpleApp()\<close>, resolved from the
    module object \<open>m\<close>; it returns the new application object.
  \<^item> \<open>ViewerFrame m\<close>: the call \<^verbatim>\<open>noysim.viewer.ViewerFrame()\<close>; it returns the new
    window.
  \<^item> \<open>Show w\<close>: the method call \<^verbatim>\<open>w.Show()\<close>; its return value is dropped.
  \<^item> \<open>MainLoop a\<close>: the method call \<^verbatim>\<open>a.MainLoop()\<close>.
\<close>

record library =
  import_viewer :: "pystate \<Rightarrow> ref reply"
  PySimpleApp :: "ref \<Rightarrow> pystate \<Rightarrow> ref reply"
  ViewerFrame :: "ref \<Rightarrow> pystate \<Rightarrow> ref reply"
  Show :: "ref \<Rightarrow> pystate \<Rightarrow> unit reply"
  MainLoop :: "ref \<Rightarrow> pystate \<Rightarrow> unit reply"

text \<open>
  The calls of the script, logged when they are entered (so that a call which never
  returns is in the log). The import is a statement, not a call: it is not logged, and
  its outcome is the first thing a run depends on.
\<close>

datatype call =
    CallPySimpleApp
  | CallViewerFrame
  | CallShow ref
  | CallMainLoop ref

type_synonym 'a run = "call list \<times> 'a reply"

subsection \<open>Attribute access and sequencing\<close>

definition setattr :: "ref \<Rightarrow> string \<Rightarrow> ref \<Rightarrow> pystate \<Rightarrow> pystate" where
  "setattr r n v s = s\<lparr>attrs := (attrs s)(r := (attrs s r)(n \<mapsto> v))\<rparr>"

definition getattr :: "ref \<Rightarrow> string \<Rightarrow> pystate \<Rightarrow> ref reply" where
  "getattr r n s =
     (case attrs s r n of
        None \<Rightarrow> Raises (AttributeError n) s
      | Some v \<Rightarrow> Returns v s)"

text \<open>
  One thing after another: what follows runs only if what came before returned. An
  exception, or a call that does not return, ends the run there. The script has no
  \<^verbatim>\<open>try\<close>, so there is no other way to continue.
\<close>

definition and_then :: "'a run \<Rightarrow> ('a \<Rightarrow> pystate \<Rightarrow> 'b run) \<Rightarrow> 'b run" where
  "and_then r k =
     (case r of
        (t, Returns v s) \<Rightarrow> (case k v s of (t', r') \<Rightarrow> (t @ t', r'))
      | (t, Raises e s) \<Rightarrow> (t, Raises e s)
      | (t, Hangs) \<Rightarrow> (t, Hangs))"

subsection \<open>The statements of the script\<close>

text \<open>\<^verbatim>\<open>import noysim.viewer\<close>\<close>

definition stmt_import :: "library \<Rightarrow> pystate \<Rightarrow> ref run" where
  "stmt_import L s = ([], import_viewer L s)"

text \<open>\<^verbatim>\<open>app = noysim.viewer.wx.PySimpleApp()\<close>\<close>

definition stmt_app :: "library \<Rightarrow> ref \<Rightarrow> pystate \<Rightarrow> ref run" where
  "stmt_app L noysim s = ([CallPySimpleApp], PySimpleApp L noysim s)"

text \<open>
  \<^verbatim>\<open>app.frame = noysim.viewer.ViewerFrame()\<close>: the right-hand side is evaluated first,
  then the attribute is bound.
\<close>

definition stmt_frame :: "library \<Rightarrow> ref \<Rightarrow> ref \<Rightarrow> pystate \<Rightarrow> unit run" where
  "stmt_frame L noysim app s =
     and_then ([CallViewerFrame], ViewerFrame L noysim s)
       (\<lambda>frame s. ([], Returns () (setattr app ''frame'' frame s)))"

text \<open>\<^verbatim>\<open>app.frame.Show()\<close>: the attribute is read, then the method is called on it.\<close>

definition stmt_show :: "library \<Rightarrow> ref \<Rightarrow> pystate \<Rightarrow> unit run" where
  "stmt_show L app s =
     and_then ([], getattr app ''frame'' s)
       (\<lambda>w s. ([CallShow w], Show L w s))"

text \<open>\<^verbatim>\<open>app.MainLoop()\<close>\<close>

definition stmt_mainloop :: "library \<Rightarrow> ref \<Rightarrow> pystate \<Rightarrow> unit run" where
  "stmt_mainloop L app s = ([CallMainLoop app], MainLoop L app s)"

text \<open>The script, top to bottom.\<close>

definition runviewer :: "library \<Rightarrow> pystate \<Rightarrow> unit run" where
  "runviewer L s =
     and_then (stmt_import L s) (\<lambda>noysim s.
     and_then (stmt_app L noysim s) (\<lambda>app s.
     and_then (stmt_frame L noysim app s) (\<lambda>_ s.
     and_then (stmt_show L app s) (\<lambda>_ s.
     stmt_mainloop L app s))))"

text \<open>
  The script up to, and without, its last line: the result is the application object on
  which the event loop is about to be entered.
\<close>

definition startup :: "library \<Rightarrow> pystate \<Rightarrow> ref run" where
  "startup L s =
     and_then (stmt_import L s) (\<lambda>noysim s.
     and_then (stmt_app L noysim s) (\<lambda>app s.
     and_then (stmt_frame L noysim app s) (\<lambda>_ s.
     and_then (stmt_show L app s) (\<lambda>_ s.
     ([], Returns app s)))))"

text \<open>The log of a run that reaches the event loop.\<close>

definition four_calls :: "ref \<Rightarrow> ref \<Rightarrow> call list" where
  "four_calls app frame =
     [CallPySimpleApp, CallViewerFrame, CallShow frame, CallMainLoop app]"

subsection \<open>Conditions on a library\<close>

text \<open>
  A library in which neither \<open>Show\<close> nor \<open>MainLoop\<close> rebinds an attribute called
  \<open>frame\<close> while it returns.
\<close>

definition keeps_frame :: "library \<Rightarrow> bool" where
  "keeps_frame L \<longleftrightarrow>
     (\<forall>w s u s' a. Show L w s = Returns u s' \<longrightarrow> attrs s' a ''frame'' = attrs s a ''frame'') \<and>
     (\<forall>b s u s' a. MainLoop L b s = Returns u s' \<longrightarrow> attrs s' a ''frame'' = attrs s a ''frame'')"




subsection \<open>A library to run the script against\<close>

text \<open>
  A stand-in for the library, for running the model: the module object is 1, the
  application object 2, the window 3, and \<open>Show\<close> marks the window as shown. The entry
  point number \<open>k\<close> (counted from 0, in the order of the script) raises; with \<open>k = 5\<close>
  the event loop never returns; with any larger \<open>k\<close> every call returns.
\<close>

definition stub_library :: "nat \<Rightarrow> library" where
  "stub_library k =
     \<lparr>import_viewer = (\<lambda>s. if k = 0 then Raises (ImportError ''wx'') s else Returns 1 s),
      PySimpleApp = (\<lambda>m s. if k = 1 then Raises (LibraryError ''PySimpleApp'') s
                      else Returns 2 s),
      ViewerFrame = (\<lambda>m s. if k = 2 then Raises (LibraryError ''ViewerFrame'') s
                      else Returns 3 s),
      Show = (\<lambda>w s. if k = 3 then Raises (LibraryError ''Show'') s
                      else Returns () (setattr w ''shown'' w s)),
      MainLoop = (\<lambda>a s. if k = 4 then Raises (LibraryError ''MainLoop'') s
                      else if k = 5 then Hangs else Returns () s)\<rparr>"

definition start :: pystate where
  "start = \<lparr>attrs = (\<lambda>_. Map.empty),
            given = \<lparr>argv = [''runviewer.pyw''], environ = Map.empty, user_input = []\<rparr>\<rparr>"


section \<open>Basic facts\<close>

lemma and_then_Returns [simp]:
  "and_then (t, Returns v s) k = (t @ fst (k v s), snd (k v s))"
  by (simp add: and_then_def split: prod.splits)

lemma and_then_Raises [simp]: "and_then (t, Raises e s) k = (t, Raises e s)"
  by (simp add: and_then_def)

lemma and_then_Hangs [simp]: "and_then (t, Hangs) k = (t, Hangs)"
  by (simp add: and_then_def)

lemma getattr_setattr [simp]:
  "getattr r n (setattr r n v s) = Returns v (setattr r n v s)"
  by (simp add: getattr_def setattr_def)

lemmas stmt_defs =
  stmt_import_def stmt_app_def stmt_frame_def stmt_show_def stmt_mainloop_def

text \<open>The script, spelled out call by call.\<close>

lemma runviewer_unfold:
  "runviewer L s =
     (case import_viewer L s of
        Raises e s' \<Rightarrow> ([], Raises e s')
      | Hangs \<Rightarrow> ([], Hangs)
      | Returns noysim s0 \<Rightarrow>
     (case PySimpleApp L noysim s0 of
        Raises e s' \<Rightarrow> ([CallPySimpleApp], Raises e s')
      | Hangs \<Rightarrow> ([CallPySimpleApp], Hangs)
      | Returns app s1 \<Rightarrow>
     (case ViewerFrame L noysim s1 of
        Raises e s' \<Rightarrow> ([CallPySimpleApp, CallViewerFrame], Raises e s')
      | Hangs \<Rightarrow> ([CallPySimpleApp, CallViewerFrame], Hangs)
      | Returns frame s2 \<Rightarrow>
     (case Show L frame (setattr app ''frame'' frame s2) of
        Raises e s' \<Rightarrow> ([CallPySimpleApp, CallViewerFrame, CallShow frame], Raises e s')
      | Hangs \<Rightarrow> ([CallPySimpleApp, CallViewerFrame, CallShow frame], Hangs)
      | Returns u s3 \<Rightarrow> (four_calls app frame, MainLoop L app s3)))))"
  by (simp add: runviewer_def stmt_defs four_calls_def split: reply.splits)

lemma startup_unfold:
  "startup L s =
     (case import_viewer L s of
        Raises e s' \<Rightarrow> ([], Raises e s')
      | Hangs \<Rightarrow> ([], Hangs)
      | Returns noysim s0 \<Rightarrow>
     (case PySimpleApp L noysim s0 of
        Raises e s' \<Rightarrow> ([CallPySimpleApp], Raises e s')
      | Hangs \<Rightarrow> ([CallPySimpleApp], Hangs)
      | Returns app s1 \<Rightarrow>
     (case ViewerFrame L noysim s1 of
        Raises e s' \<Rightarrow> ([CallPySimpleApp, CallViewerFrame], Raises e s')
      | Hangs \<Rightarrow> ([CallPySimpleApp, CallViewerFrame], Hangs)
      | Returns frame s2 \<Rightarrow>
     (case Show L frame (setattr app ''frame'' frame s2) of
        Raises e s' \<Rightarrow> ([CallPySimpleApp, CallViewerFrame, CallShow frame], Raises e s')
      | Hangs \<Rightarrow> ([CallPySimpleApp, CallViewerFrame, CallShow frame], Hangs)
      | Returns u s3 \<Rightarrow>
          ([CallPySimpleApp, CallViewerFrame, CallShow frame], Returns app s3)))))"
  by (simp add: startup_def stmt_defs split: reply.splits)

lemma runviewer_startup: "runviewer L s = and_then (startup L s) (stmt_mainloop L)"
  by (simp add: runviewer_unfold startup_unfold stmt_mainloop_def four_calls_def
      split: reply.splits)

text \<open>Whatever happens, the log is an initial piece of the four calls, in order.\<close>

lemma runviewer_prefix: "\<exists>app frame. prefix (fst (runviewer L s)) (four_calls app frame)"
  by (auto simp: runviewer_unfold four_calls_def split: reply.splits)

lemma prefix_four_calls:
  "prefix t (four_calls app frame) \<longleftrightarrow>
     t = [] \<or> t = [CallPySimpleApp] \<or> t = [CallPySimpleApp, CallViewerFrame] \<or>
     t = [CallPySimpleApp, CallViewerFrame, CallShow frame] \<or> t = four_calls app frame"
  by (auto simp: four_calls_def prefix_Cons)

lemma stub_run:
  "runviewer (stub_library 6) start =
     (four_calls 2 3, Returns () (setattr 3 ''shown'' 3 (setattr 2 ''frame'' 3 start)))"
  by (simp add: runviewer_unfold stub_library_def)

lemma stub_run_hangs:
  "runviewer (stub_library 5) start = (four_calls 2 3, Hangs)"
  by (simp add: runviewer_unfold stub_library_def)

lemma startup_no_mainloop: "CallMainLoop b \<notin> set (fst (startup L s))"
  by (simp add: startup_unfold split: reply.splits)

lemma count_list_prefix: "prefix p t \<Longrightarrow> count_list p x \<le> count_list t x"
  by (auto simp: prefix_def)

lemma count_four_calls [simp]:
  "count_list (four_calls app frame) CallPySimpleApp = 1"
  "count_list (four_calls app frame) CallViewerFrame = 1"
  by (simp_all add: four_calls_def)

lemma keeps_frame_stub: "keeps_frame (stub_library 6)"
  by (auto simp: keeps_frame_def stub_library_def setattr_def)











section \<open>The claims\<close>

subsection \<open>C1: four operations, in order\<close>



subsection \<open>C2: the event loop comes last\<close>

text \<open>
  Claim C2. The event loop is entered last and the launcher waits for it: if
  \<open>MainLoop\<close> is in the log, it is the last entry and the only such entry, everything
  before it is the start-up, and the outcome of the launcher is the outcome of that call
  (it returns, raises or hangs as the loop does; no statement of the launcher runs
  after it). The launcher finishes only by the event loop returning.
\<close>

theorem mainloop_entered_last:
  "runviewer L s = (t, r) \<Longrightarrow>
     (\<forall>a. CallMainLoop a \<in> set t \<longrightarrow>
        (\<exists>t0 s4. startup L s = (t0, Returns a s4) \<and>
           t = t0 @ [CallMainLoop a] \<and> (\<forall>b. CallMainLoop b \<notin> set t0) \<and>
           r = MainLoop L a s4)) \<and>
     (\<forall>u s'. r = Returns u s' \<longrightarrow> (\<exists>a. CallMainLoop a \<in> set t))"
proof (intro conjI allI impI)
  fix a
  assume run: "runviewer L s = (t, r)" and ent: "CallMainLoop a \<in> set t"
  obtain t0 r0 where st: "startup L s = (t0, r0)" by (cases "startup L s")
  have no: "\<forall>b. CallMainLoop b \<notin> set t0"
    using startup_no_mainloop [of _ L s] st by simp
  show "\<exists>t0 s4. startup L s = (t0, Returns a s4) \<and>
           t = t0 @ [CallMainLoop a] \<and> (\<forall>b. CallMainLoop b \<notin> set t0) \<and>
           r = MainLoop L a s4"
  proof (cases r0)
    case (Returns app s4)
    with run st have "t = t0 @ [CallMainLoop app]" "r = MainLoop L app s4"
      by (simp_all add: runviewer_startup stmt_mainloop_def)
    moreover from this ent no have "app = a" by auto
    ultimately show ?thesis using st Returns no by simp
  next
    case (Raises e s')
    with run st have "t = t0" by (simp add: runviewer_startup)
    with ent no show ?thesis by simp
  next
    case Hangs
    with run st have "t = t0" by (simp add: runviewer_startup)
    with ent no show ?thesis by simp
  qed
next
  fix u s'
  assume run: "runviewer L s = (t, r)" and fin: "r = Returns u s'"
  then show "\<exists>a. CallMainLoop a \<in> set t"
    by (auto simp: runviewer_unfold four_calls_def split: reply.splits)
qed

theorem mainloop_entered_last_witness:
  "runviewer (stub_library 5) start = (four_calls 2 3, Hangs) \<and>
   CallMainLoop 2 \<in> set (four_calls 2 3) \<and>
   (\<exists>t0 s4. startup (stub_library 5) start = (t0, Returns 2 s4) \<and>
      four_calls 2 3 = t0 @ [CallMainLoop 2] \<and> (\<forall>b. CallMainLoop b \<notin> set t0) \<and>
      Hangs = MainLoop (stub_library 5) 2 s4) \<and>
   snd (runviewer (stub_library 6) start) =
     Returns () (setattr 3 ''shown'' 3 (setattr 2 ''frame'' 3 start)) \<and>
   (\<exists>a. CallMainLoop a \<in> set (fst (runviewer (stub_library 6) start)))"
proof -
  have in_log: "CallMainLoop 2 \<in> set (four_calls 2 3)" by (simp add: four_calls_def)
  from mainloop_entered_last [OF stub_run_hangs] in_log
  have "\<exists>t0 s4. startup (stub_library 5) start = (t0, Returns 2 s4) \<and>
      four_calls 2 3 = t0 @ [CallMainLoop 2] \<and> (\<forall>b. CallMainLoop b \<notin> set t0) \<and>
      Hangs = MainLoop (stub_library 5) 2 s4" by blast
  moreover from mainloop_entered_last [OF stub_run]
  have "\<exists>a. CallMainLoop a \<in> set (four_calls 2 3)" by blast
  ultimately show ?thesis using stub_run stub_run_hangs in_log by simp
qed

subsection \<open>C3: one application, one window\<close>

text \<open>
  Claim C3. No operation of the launcher constructs a second application object or a
  second window: at every moment of a run (every initial piece of its log) each of the
  two constructors has been called at most once, and from the moment the window is
  shown each has been called exactly once.
\<close>

theorem one_app_one_window:
  "runviewer L s = (t, r) \<Longrightarrow>
     (\<forall>p. prefix p t \<longrightarrow>
        count_list p CallPySimpleApp \<le> 1 \<and> count_list p CallViewerFrame \<le> 1) \<and>
     ((\<exists>w. CallShow w \<in> set t) \<longrightarrow>
        count_list t CallPySimpleApp = 1 \<and> count_list t CallViewerFrame = 1)"
proof -
  assume run: "runviewer L s = (t, r)"
  from runviewer_prefix [of L s] run obtain app frame
    where t: "prefix t (four_calls app frame)" by auto
  have "count_list p CallPySimpleApp \<le> 1 \<and> count_list p CallViewerFrame \<le> 1"
    if p: "prefix p t" for p
  proof -
    from p t have pf: "prefix p (four_calls app frame)" by (rule prefix_order.trans)
    from count_list_prefix [OF pf, of CallPySimpleApp]
      count_list_prefix [OF pf, of CallViewerFrame]
    show ?thesis by simp
  qed
  moreover have "count_list t CallPySimpleApp = 1 \<and> count_list t CallViewerFrame = 1"
    if w: "CallShow w \<in> set t" for w
  proof -
    from t have "t = [] \<or> t = [CallPySimpleApp] \<or> t = [CallPySimpleApp, CallViewerFrame] \<or>
       t = [CallPySimpleApp, CallViewerFrame, CallShow frame] \<or> t = four_calls app frame"
      by (simp only: prefix_four_calls)
    with w show ?thesis by (auto simp: four_calls_def)
  qed
  ultimately show ?thesis by blast
qed

theorem one_app_one_window_witness:
  "runviewer (stub_library 6) start =
     (four_calls 2 3, Returns () (setattr 3 ''shown'' 3 (setattr 2 ''frame'' 3 start))) \<and>
   prefix [CallPySimpleApp, CallViewerFrame] (four_calls 2 3) \<and>
   count_list [CallPySimpleApp, CallViewerFrame] CallPySimpleApp \<le> 1 \<and>
   count_list [CallPySimpleApp, CallViewerFrame] CallViewerFrame \<le> 1 \<and>
   CallShow 3 \<in> set (four_calls 2 3) \<and>
   count_list (four_calls 2 3) CallPySimpleApp = 1 \<and>
   count_list (four_calls 2 3) CallViewerFrame = 1"
proof -
  have p: "prefix [CallPySimpleApp, CallViewerFrame] (four_calls 2 3)"
    by (simp add: four_calls_def)
  have w: "CallShow 3 \<in> set (four_calls 2 3)" by (simp add: four_calls_def)
  from one_app_one_window [OF stub_run] p w
  have "count_list [CallPySimpleApp, CallViewerFrame] CallPySimpleApp \<le> 1 \<and>
        count_list [CallPySimpleApp, CallViewerFrame] CallViewerFrame \<le> 1"
    and "count_list (four_calls 2 3) CallPySimpleApp = 1 \<and>
         count_list (four_calls 2 3) CallViewerFrame = 1"
    by blast+
  with stub_run p w show ?thesis by blast
qed

subsection \<open>C4: the window shown is the window attached\<close>

text \<open>
  Claim C4. The window that is shown is the very window that was attached: whenever
  \<open>Show\<close> is called, its receiver is the object that \<open>ViewerFrame\<close> returned, and
  it is called in the state in which the attribute \<open>frame\<close> of the application is bound
  to that object. If, moreover, the library's \<open>Show\<close> and \<open>MainLoop\<close> do not rebind an
  attribute \<open>frame\<close>, then after the launcher has run the attribute \<open>frame\<close> of the
  application is still the window that was shown.
\<close>

theorem shown_window_is_attached:
  "runviewer L s = (t, r) \<Longrightarrow> CallShow w \<in> set t \<Longrightarrow>
     \<exists>noysim s0 app s1 s2.
       import_viewer L s = Returns noysim s0 \<and>
       PySimpleApp L noysim s0 = Returns app s1 \<and>
       ViewerFrame L noysim s1 = Returns w s2 \<and>
       attrs (setattr app ''frame'' w s2) app ''frame'' = Some w \<and>
       (t, r) = and_then ([CallPySimpleApp, CallViewerFrame, CallShow w],
                          Show L w (setattr app ''frame'' w s2))
                  (\<lambda>_. stmt_mainloop L app) \<and>
       (keeps_frame L \<longrightarrow>
          (\<forall>u s'. r = Returns u s' \<longrightarrow> attrs s' app ''frame'' = Some w))"
proof -
  assume run: "runviewer L s = (t, r)" and shown: "CallShow w \<in> set t"
  from run shown obtain noysim s0 app s1 s2 where
    calls: "import_viewer L s = Returns noysim s0"
      "PySimpleApp L noysim s0 = Returns app s1"
      "ViewerFrame L noysim s1 = Returns w s2"
    by (auto simp: runviewer_unfold four_calls_def split: reply.splits)
  let ?s3 = "setattr app ''frame'' w s2"
  have bound: "attrs ?s3 app ''frame'' = Some w" by (simp add: setattr_def)
  have "runviewer L s =
          and_then ([CallPySimpleApp, CallViewerFrame, CallShow w], Show L w ?s3)
            (\<lambda>_. stmt_mainloop L app)"
    using calls
    by (simp add: runviewer_unfold four_calls_def stmt_mainloop_def split: reply.splits)
  with run have rest:
    "(t, r) = and_then ([CallPySimpleApp, CallViewerFrame, CallShow w], Show L w ?s3)
                (\<lambda>_. stmt_mainloop L app)"
    by simp
  have "attrs s' app ''frame'' = Some w"
    if keeps: "keeps_frame L" and fin: "r = Returns u s'" for u s'
  proof -
    from rest fin obtain u3 s3 where
      sh: "Show L w ?s3 = Returns u3 s3" and ml: "MainLoop L app s3 = Returns u s'"
      by (cases "Show L w ?s3") (auto simp: stmt_mainloop_def)
    from keeps sh have "attrs s3 app ''frame'' = attrs ?s3 app ''frame''"
      unfolding keeps_frame_def by blast
    moreover from keeps ml have "attrs s' app ''frame'' = attrs s3 app ''frame''"
      unfolding keeps_frame_def by blast
    ultimately show ?thesis using bound by simp
  qed
  with calls bound rest show ?thesis by blast
qed

theorem shown_window_is_attached_witness:
  "runviewer (stub_library 6) start =
     (four_calls 2 3, Returns () (setattr 3 ''shown'' 3 (setattr 2 ''frame'' 3 start))) \<and>
   CallShow 3 \<in> set (four_calls 2 3) \<and>
   keeps_frame (stub_library 6) \<and>
   ViewerFrame (stub_library 6) 1 start = Returns 3 start \<and>
   attrs (setattr 3 ''shown'' 3 (setattr 2 ''frame'' 3 start)) 2 ''frame'' = Some 3"
proof -
  have shown: "CallShow 3 \<in> set (four_calls 2 3)" by (simp add: four_calls_def)
  from shown_window_is_attached [OF stub_run shown] keeps_frame_stub
  obtain app where
    "PySimpleApp (stub_library 6) 1 start = Returns app start"
    "attrs (setattr 3 ''shown'' 3 (setattr 2 ''frame'' 3 start)) app ''frame'' = Some 3"
    by (auto simp: stub_library_def)
  then have "attrs (setattr 3 ''shown'' 3 (setattr 2 ''frame'' 3 start)) 2 ''frame'' = Some 3"
    by (simp add: stub_library_def)
  moreover have "ViewerFrame (stub_library 6) 1 start = Returns 3 start"
    by (simp add: stub_library_def)
  ultimately show ?thesis using stub_run shown keeps_frame_stub by simp
qed

subsection \<open>C5: exceptions are not handled\<close>

text \<open>
  Claim C5. The launcher handles no exception: an exception raised by the import of the
  viewer module, by the construction of the application, by the construction of the
  window, by showing the window or by the event loop comes out of the script as it
  is, with the state as the raising call left it.
\<close>

theorem errors_propagate:
  "(import_viewer L s = Raises e s' \<longrightarrow> snd (runviewer L s) = Raises e s') \<and>
   (import_viewer L s = Returns noysim s0 \<and>
    PySimpleApp L noysim s0 = Raises e s' \<longrightarrow> snd (runviewer L s) = Raises e s') \<and>
   (import_viewer L s = Returns noysim s0 \<and>
    PySimpleApp L noysim s0 = Returns app s1 \<and>
    ViewerFrame L noysim s1 = Raises e s' \<longrightarrow> snd (runviewer L s) = Raises e s') \<and>
   (import_viewer L s = Returns noysim s0 \<and>
    PySimpleApp L noysim s0 = Returns app s1 \<and>
    ViewerFrame L noysim s1 = Returns frame s2 \<and>
    Show L frame (setattr app ''frame'' frame s2) = Raises e s' \<longrightarrow>
      snd (runviewer L s) = Raises e s') \<and>
   (import_viewer L s = Returns noysim s0 \<and>
    PySimpleApp L noysim s0 = Returns app s1 \<and>
    ViewerFrame L noysim s1 = Returns frame s2 \<and>
    Show L frame (setattr app ''frame'' frame s2) = Returns u s3 \<and>
    MainLoop L app s3 = Raises e s' \<longrightarrow> snd (runviewer L s) = Raises e s')"
  by (simp add: runviewer_unfold)

theorem errors_propagate_witness:
  "snd (runviewer (stub_library 0) start) = Raises (ImportError ''wx'') start \<and>
   snd (runviewer (stub_library 1) start) = Raises (LibraryError ''PySimpleApp'') start \<and>
   snd (runviewer (stub_library 2) start) = Raises (LibraryError ''ViewerFrame'') start \<and>
   snd (runviewer (stub_library 3) start) =
     Raises (LibraryError ''Show'') (setattr 2 ''frame'' 3 start) \<and>
   snd (runviewer (stub_library 4) start) =
     Raises (LibraryError ''MainLoop'') (setattr 3 ''shown'' 3 (setattr 2 ''frame'' 3 start))"
proof -
  let ?s2 = "setattr 2 ''frame'' 3 start"
  let ?s3 = "setattr 3 ''shown'' 3 ?s2"
  have "import_viewer (stub_library 0) start = Raises (ImportError ''wx'') start"
    by (simp add: stub_library_def)
  with errors_propagate [of "stub_library 0" start "ImportError ''wx''" start]
  have r0: "snd (runviewer (stub_library 0) start) = Raises (ImportError ''wx'') start"
    by blast
  have "import_viewer (stub_library 1) start = Returns 1 start \<and>
        PySimpleApp (stub_library 1) 1 start = Raises (LibraryError ''PySimpleApp'') start"
    by (simp add: stub_library_def)
  with errors_propagate [of "stub_library 1" start "LibraryError ''PySimpleApp''" start 1 start]
  have r1: "snd (runviewer (stub_library 1) start) =
              Raises (LibraryError ''PySimpleApp'') start"
    by blast
  have "import_viewer (stub_library 2) start = Returns 1 start \<and>
        PySimpleApp (stub_library 2) 1 start = Returns 2 start \<and>
        ViewerFrame (stub_library 2) 1 start = Raises (LibraryError ''ViewerFrame'') start"
    by (simp add: stub_library_def)
  with errors_propagate [of "stub_library 2" start "LibraryError ''ViewerFrame''" start
      1 start 2 start]
  have r2: "snd (runviewer (stub_library 2) start) =
              Raises (LibraryError ''ViewerFrame'') start"
    by blast
  have "import_viewer (stub_library 3) start = Returns 1 start \<and>
        PySimpleApp (stub_library 3) 1 start = Returns 2 start \<and>
        ViewerFrame (stub_library 3) 1 start = Returns 3 start \<and>
        Show (stub_library 3) 3 ?s2 = Raises (LibraryError ''Show'') ?s2"
    by (simp add: stub_library_def)
  with errors_propagate [of "stub_library 3" start "LibraryError ''Show''" ?s2
      1 start 2 start 3 start]
  have r3: "snd (runviewer (stub_library 3) start) = Raises (LibraryError ''Show'') ?s2"
    by blast
  have "import_viewer (stub_library 4) start = Returns 1 start \<and>
        PySimpleApp (stub_library 4) 1 start = Returns 2 start \<and>
        ViewerFrame (stub_library 4) 1 start = Returns 3 start \<and>
        Show (stub_library 4) 3 ?s2 = Returns () ?s3 \<and>
        MainLoop (stub_library 4) 2 ?s3 = Raises (LibraryError ''MainLoop'') ?s3"
    by (simp add: stub_library_def)
  with errors_propagate [of "stub_library 4" start "LibraryError ''MainLoop''" ?s3
      1 start 2 start 3 start "()" ?s3]
  have r4: "snd (runviewer (stub_library 4) start) = Raises (LibraryError ''MainLoop'') ?s3"
    by blast
  from r0 r1 r2 r3 r4 show ?thesis by simp
qed

subsection \<open>C6: a failed import leaves nothing behind\<close>

text \<open>
  Claim C6. If the import of the viewer module fails, the launcher constructs no
  application object and shows no window: it makes no call at all, and it ends with the
  exception and the state of the failed import, to which it has added nothing.
\<close>

theorem import_failure_creates_nothing:
  "import_viewer L s = Raises e s' \<Longrightarrow>
     runviewer L s = ([], Raises e s') \<and>
     CallPySimpleApp \<notin> set (fst (runviewer L s)) \<and>
     CallViewerFrame \<notin> set (fst (runviewer L s)) \<and>
     (\<forall>w. CallShow w \<notin> set (fst (runviewer L s))) \<and>
     (\<forall>a. CallMainLoop a \<notin> set (fst (runviewer L s)))"
  by (simp add: runviewer_unfold)

theorem import_failure_creates_nothing_witness:
  "import_viewer (stub_library 0) start = Raises (ImportError ''wx'') start \<and>
   runviewer (stub_library 0) start = ([], Raises (ImportError ''wx'') start)"
proof -
  have failed: "import_viewer (stub_library 0) start = Raises (ImportError ''wx'') start"
    by (simp add: stub_library_def)
  from import_failure_creates_nothing [OF failed] failed show ?thesis by simp
qed

subsection \<open>C7: the attach step binds one attribute\<close>



subsection \<open>C8: the launcher reads no input\<close>



end
